theory Spec2Isabelle
  imports Complex_Main
begin

section \<open>Numbers and arrays\<close>

text \<open>
  The scripts compute with numpy double-precision arrays. A number is modelled as a
  real, without rounding, or as \<open>None\<close> when it is not a number (numpy's \<open>nan\<close>,
  which the code can produce by dividing zero by zero and which the external fit can
  return for an empty image). Arithmetic propagates \<open>None\<close> as numpy propagates \<open>nan\<close>.
\<close>

type_synonym float64 = "real option"

definition fadd :: "float64 \<Rightarrow> float64 \<Rightarrow> float64" where
  "fadd a b = (case a of None \<Rightarrow> None | Some x \<Rightarrow> (case b of None \<Rightarrow> None | Some y \<Rightarrow> Some (x + y)))"

definition fsub :: "float64 \<Rightarrow> float64 \<Rightarrow> float64" where
  "fsub a b = (case a of None \<Rightarrow> None | Some x \<Rightarrow> (case b of None \<Rightarrow> None | Some y \<Rightarrow> Some (x - y)))"

definition fmul :: "float64 \<Rightarrow> float64 \<Rightarrow> float64" where
  "fmul a b = (case a of None \<Rightarrow> None | Some x \<Rightarrow> (case b of None \<Rightarrow> None | Some y \<Rightarrow> Some (x * y)))"

text \<open>Division: zero by zero is \<open>nan\<close>; a quotient by zero is not a finite number either.\<close>

definition fdiv :: "float64 \<Rightarrow> float64 \<Rightarrow> float64" where
  "fdiv a b = (case a of None \<Rightarrow> None | Some x \<Rightarrow>
     (case b of None \<Rightarrow> None | Some y \<Rightarrow> if y = 0 then None else Some (x / y)))"

definition fcos :: "float64 \<Rightarrow> float64" where
  "fcos a = map_option cos a"

definition fsin :: "float64 \<Rightarrow> float64" where
  "fsin a = map_option sin a"

definition fsqrt :: "float64 \<Rightarrow> float64" where
  "fsqrt a = (case a of None \<Rightarrow> None | Some x \<Rightarrow> if x < 0 then None else Some (sqrt x))"

text \<open>
  An n-dimensional array: its shape and its elements in row-major order, which is what
  \<open>flatten()\<close> and \<open>ravel()\<close> return. \<open>ndim\<close> is the number of dimensions.
\<close>

record ndarray =
  shape :: "nat list"
  data :: "float64 list"

definition ndim :: "ndarray \<Rightarrow> nat" where
  "ndim a = length (shape a)"

text \<open>
  The maximum of an array that has an element, as \<open>max()\<close> returns it: \<open>nan\<close> as soon
  as one element is \<open>nan\<close>.
\<close>

definition fmax :: "float64 \<Rightarrow> float64 \<Rightarrow> float64" where
  "fmax a b = (case a of None \<Rightarrow> None | Some x \<Rightarrow> (case b of None \<Rightarrow> None | Some y \<Rightarrow> Some (max x y)))"

definition amax :: "float64 list \<Rightarrow> float64" where
  "amax a = fold fmax (tl a) (hd a)"

text \<open>\<open>np.linspace(start, stop, num)\<close>: \<open>num\<close> evenly spaced samples, both ends included.\<close>

definition linspace :: "real \<Rightarrow> real \<Rightarrow> nat \<Rightarrow> real list" where
  "linspace start stop num =
     map (\<lambda>i. start + real i * ((stop - start) / real (num - 1))) [0..<num]"

text \<open>
  \<open>np.meshgrid(x, y)\<close>: two arrays of \<open>len(y)\<close> rows and \<open>len(x)\<close> columns; row \<open>i\<close> of
  the first is \<open>x\<close>, row \<open>i\<close> of the second repeats \<open>y[i]\<close>. \<open>flatten\<close> reads a
  two-dimensional array row by row.
\<close>

definition meshgrid :: "real list \<Rightarrow> real list \<Rightarrow> real list list \<times> real list list" where
  "meshgrid x y = (map (\<lambda>_. x) y, map (\<lambda>yi. map (\<lambda>_. yi) x) y)"

definition flatten :: "real list list \<Rightarrow> float64 list" where
  "flatten a = map Some (concat a)"

text \<open>
  \<open>np.histogram\<close> for an explicit sequence of bin edges, which is what \<open>axis.hist\<close>
  computes when \<open>bins\<close> is a sequence: bin \<open>i\<close> counts the values \<open>v\<close> with
  \<open>bins[i] \<le> v < bins[i+1]\<close>, the last bin also takes its right edge, and \<open>nan\<close> falls
  in no bin.
\<close>

definition in_bin :: "real list \<Rightarrow> nat \<Rightarrow> float64 \<Rightarrow> bool" where
  "in_bin bins i a = (case a of None \<Rightarrow> False
     | Some v \<Rightarrow> bins ! i \<le> v \<and> (v < bins ! (i + 1) \<or> (i + 2 = length bins \<and> v = bins ! (i + 1))))"

definition histogram :: "float64 list \<Rightarrow> real list \<Rightarrow> nat list" where
  "histogram a bins = map (\<lambda>i. length (filter (in_bin bins i) a)) [0..<length bins - 1]"

section \<open>Errors and effects\<close>

text \<open>
  Every exception the scripts raise or let through is a value. Calls into the plotting
  library, the loader's file access, printing and saving are recorded, in order, as
  events; a procedure takes the events so far and returns them extended, with the
  exception that ended it, if any. A recorded call into the plotting library is taken
  to return, except where a procedure below says that it raises.
\<close>

datatype error =
    Exception string
  | NameError string
  | AssessError
  | ValueError string
  | IndexError string
  | KeyError string
  | LibraryError string

text \<open>
  A printed value: text, a number, a tuple of numbers or of names, or an elapsed time
  (a difference of two clock readings, whose value is not modelled).
\<close>

datatype pyval = Str string | Num float64 | Nums "float64 list" | Strs "string list" | Elapsed

text \<open>
  Axes are named after the variables that hold them. \<open>Pcolor axis image cmap log\<close>: the
  colour limits are the image's minimum and maximum (0.01 and the maximum on the
  logarithmic scale), so the image determines them.
\<close>

datatype event =
    Load string
  | Print "pyval list"
  | Subplots
  | Pcolor string ndarray string bool
  | Colorbar string
  | Set_title string string
  | Add_patch string
  | Scatter string
  | Hist string string "nat list" "real list"
  | Set_xlim string real real
  | Set_xlabel string string
  | Set_ylabel string string
  | Legend string
  | Savefig string
  | Show
  | Clf
  | Canvas_draw
  | Add_subplot nat

type_synonym proc = "event list \<Rightarrow> event list \<times> error option"

section \<open>The perpendicular hit distribution\<close>

text \<open>
  The ellipse descriptor returned by the external fit \<open>hillas_parameters_1\<close>; only the
  fields the script reads. The field \<open>length\<close> of the source is \<open>length_h\<close> here.
\<close>

record hillas =
  cen_x :: float64
  cen_y :: float64
  length_h :: float64
  width :: float64
  psi :: float64

text \<open>
  \<open>ctapipe.utils.linalg\<close>: \<open>length(vec)\<close> is the square root of the inner product of
  \<open>vec\<close> with itself and \<open>normalise(vec)\<close> is \<open>vec / length(vec)\<close>; on a numpy array of
  zeros the division gives \<open>nan\<close> in each component.
\<close>

definition length_vec :: "float64 \<times> float64 \<Rightarrow> float64" where
  "length_vec vec = fsqrt (fadd (fmul (fst vec) (fst vec)) (fmul (snd vec) (snd vec)))"

definition normalise :: "float64 \<times> float64 \<Rightarrow> float64 \<times> float64" where
  "normalise vec = (fdiv (fst vec) (length_vec vec), fdiv (snd vec) (length_vec vec))"

text \<open>The body of the loop over the two labels, one definition per assignment.\<close>

definition p1_x :: "hillas \<Rightarrow> float64" where
  "p1_x h = cen_x h"

definition p1_y :: "hillas \<Rightarrow> float64" where
  "p1_y h = cen_y h"

definition p2_x :: "hillas \<Rightarrow> float64" where
  "p2_x h = fadd (p1_x h) (fmul (length_h h) (fcos (fadd (psi h) (Some (pi / 2)))))"

definition p2_y :: "hillas \<Rightarrow> float64" where
  "p2_y h = fadd (p1_y h) (fmul (length_h h) (fsin (fadd (psi h) (Some (pi / 2)))))"

definition T_of :: "hillas \<Rightarrow> float64 \<times> float64" where
  "T_of h = normalise (fsub (p1_x h) (p2_x h), fsub (p1_y h) (p2_y h))"

definition D_of :: "hillas \<Rightarrow> float64 list \<Rightarrow> float64 list \<Rightarrow> float64 list \<times> float64 list" where
  "D_of h x y = (map (\<lambda>xi. fsub (p1_x h) xi) x, map (\<lambda>yi. fsub (p1_y h) yi) y)"

definition dl_of :: "float64 list \<times> float64 list \<Rightarrow> float64 \<times> float64 \<Rightarrow> float64 list" where
  "dl_of D T = map2 (\<lambda>d0 d1. fadd (fmul d0 (fst T)) (fmul d1 (snd T))) (fst D) (snd D)"

definition dp_of :: "float64 list \<times> float64 list \<Rightarrow> float64 \<times> float64 \<Rightarrow> float64 list" where
  "dp_of D T = map2 (\<lambda>d0 d1. fsub (fmul d0 (snd T)) (fmul d1 (fst T))) (fst D) (snd D)"

definition loop_body ::
  "string \<Rightarrow> string \<Rightarrow> hillas \<Rightarrow> real list list \<Rightarrow> real list list \<Rightarrow> real \<Rightarrow> event" where
  "loop_body axis k h xx yy size_m =
     (let T = T_of h;
          x = flatten xx;
          y = flatten yy;
          D = D_of h x y;
          dl = dl_of D T;
          dp = dp_of D T;
          bins = linspace (- size_m) size_m 31
      in Hist axis k (histogram dp bins) bins)"

text \<open>
  \<open>plot_perpendicular_hit_distribution(axis, image_array, title)\<close>. The fit is external
  and is a parameter: it returns the descriptor or raises. Both deep copies are the
  array itself, since nothing mutates them. The dictionary of the loop is iterated in
  insertion order, \<open>ref.\<close> first.
\<close>

definition grid_x :: "real list" where
  "grid_x = linspace (- 0.142555996776) 0.142555996776 40"

definition grid_y :: "real list" where
  "grid_y = linspace (- 0.142555996776) 0.142555996776 40"

definition plot_perpendicular_hit_distribution ::
  "(float64 list \<Rightarrow> float64 list \<Rightarrow> float64 list \<Rightarrow> error + hillas) \<Rightarrow>
   string \<Rightarrow> ndarray \<Rightarrow> string \<Rightarrow> proc" where
  "plot_perpendicular_hit_distribution hillas_parameters_1 axis image_array title tr =
     (let ref_image_array = image_array;
          cleaned_image_array = image_array;
          size_m = 0.2;
          xx = fst (meshgrid grid_x grid_y);
          yy = snd (meshgrid grid_x grid_y)
      in case hillas_parameters_1 (flatten xx) (flatten yy) (data ref_image_array) of
           Inl e \<Rightarrow> (tr, Some e)
         | Inr h_ref \<Rightarrow>
            (case hillas_parameters_1 (flatten xx) (flatten yy) (data cleaned_image_array) of
               Inl e \<Rightarrow> (tr, Some e)
             | Inr h_cleaned \<Rightarrow>
                (tr @ [loop_body axis ''ref.'' h_ref xx yy size_m,
                       loop_body axis ''cleaned'' h_cleaned xx yy size_m,
                       Set_xlim axis (- size_m) size_m,
                       Set_xlabel axis ''Distance to the shower axis (m)'',
                       Set_ylabel axis ''Hits'',
                       Legend axis,
                       Set_title axis title], None)))"



section \<open>The batch script\<close>

text \<open>
  What the scripts call outside themselves: the file system, the loader, the two fits,
  the two cleaning algorithms, the assessment and the formatting of a number with two
  decimals. Each is a parameter; a call either returns or raises.
\<close>

record env =
  isdir :: "string \<Rightarrow> bool"
  load_benchmark_images :: "string \<Rightarrow> error + (string \<rightharpoonup> ndarray)"
  hillas_parameters_1 :: "float64 list \<Rightarrow> float64 list \<Rightarrow> float64 list \<Rightarrow> error + hillas"
  hillas_parameters_2 :: "float64 list \<Rightarrow> float64 list \<Rightarrow> float64 list \<Rightarrow> error + hillas"
  format_2f :: "float64 \<Rightarrow> string"
  tailcut_clean_image :: "ndarray \<Rightarrow> error + ndarray"
  wavelets_clean_image :: "ndarray \<Rightarrow> bool \<Rightarrow> string \<Rightarrow> error + ndarray"
  assess_image_cleaning :: "ndarray \<Rightarrow> ndarray \<Rightarrow> ndarray \<Rightarrow> error + (float64 list \<times> string list)"

text \<open>Running a procedure after a result: an exception ends the sequence.\<close>

definition then_do :: "event list \<times> error option \<Rightarrow> proc \<Rightarrow> event list \<times> error option" where
  "then_do r p = (case r of (tr, None) \<Rightarrow> p tr | (tr, Some e) \<Rightarrow> (tr, Some e))"

text \<open>
  \<open>plot_image(axis, image_array, title, plot_log_scale=True)\<close>. Reading \<open>shape[1]\<close> of
  an array of fewer than two dimensions raises, and so do \<open>min()\<close> and \<open>max()\<close> of an
  array without elements. \<open>axis.pcolor(x, y, image_array)\<close> raises when the array has
  more than two dimensions, the two grids being two-dimensional. On the logarithmic
  scale the colour limits are 0.01 and the maximum of the image: when that maximum is
  not a number, or is below 0.01, the limits are not valid and drawing the colour bar
  raises.
\<close>

definition plot_image :: "string \<Rightarrow> ndarray \<Rightarrow> string \<Rightarrow> bool \<Rightarrow> proc" where
  "plot_image axis image_array title plot_log_scale tr =
     (if length (shape image_array) < 2 then (tr, Some (IndexError ''tuple index out of range''))
      else if data image_array = [] then (tr, Some (ValueError ''zero-size array''))
      else if 2 < length (shape image_array)
      then (tr, Some (ValueError ''pcolor: the array is not two-dimensional''))
      else if plot_log_scale \<and>
              \<not> (case amax (data image_array) of None \<Rightarrow> False | Some z_max \<Rightarrow> 0.01 \<le> z_max)
      then (tr @ [Pcolor axis image_array ''gnuplot2'' plot_log_scale],
            Some (ValueError ''Invalid vmin or vmax''))
      else (tr @ [Pcolor axis image_array ''gnuplot2'' plot_log_scale,
                  Colorbar axis,
                  Set_title axis title], None))"

text \<open>\<open>axis.axes.get_title()\<close>: the title last set on the axis, empty when none was.\<close>

fun last_title :: "event list \<Rightarrow> string \<Rightarrow> string" where
  "last_title [] axis = []"
| "last_title (Set_title a t # tr) axis = (if a = axis then t else last_title tr axis)"
| "last_title (_ # tr) axis = last_title tr axis"

definition get_title :: "event list \<Rightarrow> string \<Rightarrow> string" where
  "get_title tr axis = last_title (rev tr) axis"

text \<open>\<open>np.arange(0, n, 1)\<close> and the degrees of an angle in radians.\<close>

definition arange :: "nat \<Rightarrow> real list" where
  "arange n = map real [0..<n]"

definition degrees :: "float64 \<Rightarrow> float64" where
  "degrees a = fmul a (Some (180 / pi))"

text \<open>\<open>plot_ellipse_shower_on_image(axis, image_array)\<close>.\<close>

definition plot_ellipse_shower_on_image :: "env \<Rightarrow> string \<Rightarrow> ndarray \<Rightarrow> proc" where
  "plot_ellipse_shower_on_image env axis image_array tr =
     (if length (shape image_array) < 2 then (tr, Some (IndexError ''tuple index out of range''))
      else
        let x = arange (shape image_array ! 0);
            y = arange (shape image_array ! 1);
            xx = fst (meshgrid x y);
            yy = snd (meshgrid x y)
        in case hillas_parameters_2 env (flatten xx) (flatten yy) (data image_array) of
             Inl e \<Rightarrow> (tr, Some e)
           | Inr hillas \<Rightarrow>
              (let angle = psi hillas;
                   title = get_title tr axis
               in (tr @ [Print [Str ''centroid:'', Nums [cen_x hillas, cen_y hillas]],
                         Print [Str ''length:'', Num (length_h hillas)],
                         Print [Str ''width:'', Num (width hillas)],
                         Print [Str ''angle:'', Num angle],
                         Add_patch axis,
                         Set_title axis
                           (title @ '' ('' @ format_2f env (degrees angle) @ [CHR 0xC2, CHR 0xB0] @ '')''),
                         Scatter axis,
                         Add_patch axis,
                         Add_patch axis,
                         Add_patch axis], None)))"

text \<open>
  \<open>os.path.basename\<close> and \<open>os.path.splitext\<close> (POSIX). \<open>rfind\<close> is the index of the last
  occurrence of a character, -1 when there is none. \<open>splitext\<close> splits at the last dot
  when that dot comes after the last slash and some character between the two is not a
  dot.
\<close>

definition rfind :: "string \<Rightarrow> char \<Rightarrow> int" where
  "rfind p c = (if c \<in> set p
                then int (length p) - 1 - int (length (takeWhile (\<lambda>d. d \<noteq> c) (rev p)))
                else - 1)"

definition basename :: "string \<Rightarrow> string" where
  "basename p = drop (nat (rfind p (CHR ''/'') + 1)) p"

definition splitext :: "string \<Rightarrow> string \<times> string" where
  "splitext p =
     (let sepIndex = rfind p (CHR ''/'');
          dotIndex = rfind p (CHR ''.'')
      in if dotIndex > sepIndex \<and>
            filter (\<lambda>c. c \<noteq> CHR ''.'')
              (take (nat (dotIndex - (sepIndex + 1))) (drop (nat (sepIndex + 1)) p)) \<noteq> []
         then (take (nat dotIndex) p, drop (nat dotIndex) p)
         else (p, []))"

definition not_2d_message :: string where
  "not_2d_message = ''Unexpected error: the input FITS file should contain a 2D array.''"

text \<open>
  The body of the loop over the files of one argument. The variable \<open>output\<close> is the
  script's own: it is read and assigned here, and its value goes on to the next file.
\<close>

definition process_file ::
  "env \<Rightarrow> bool \<Rightarrow> string \<Rightarrow> string option \<Rightarrow> event list \<Rightarrow> string option \<times> event list \<times> error option" where
  "process_file env quiet input_file_path output tr =
     (case load_benchmark_images env input_file_path of
        Inl e \<Rightarrow> (output, tr @ [Load input_file_path], Some e)
      | Inr fits_images_dict \<Rightarrow>
         (case fits_images_dict ''input_image'' of
            None \<Rightarrow> (output, tr @ [Load input_file_path], Some (KeyError ''input_image''))
          | Some input_img \<Rightarrow>
             (case fits_images_dict ''reference_image'' of
                None \<Rightarrow> (output, tr @ [Load input_file_path], Some (KeyError ''reference_image''))
              | Some reference_img \<Rightarrow>
                 if ndim input_img \<noteq> 2
                 then (output, tr @ [Load input_file_path], Some (Exception not_2d_message))
                 else if ndim reference_img \<noteq> 2
                 then (output, tr @ [Load input_file_path], Some (Exception not_2d_message))
                 else
                   (case then_do (then_do (plot_image ''ax1'' reference_img ''Reference image'' True
                                             (tr @ [Load input_file_path, Subplots]))
                                     (plot_ellipse_shower_on_image env ''ax1'' reference_img))
                           (plot_perpendicular_hit_distribution (hillas_parameters_1 env) ''ax2''
                              reference_img ''Perpendicular hit distribution'') of
                      (tr', Some e) \<Rightarrow> (output, tr', Some e)
                    | (tr', None) \<Rightarrow>
                       (let base_file_path = basename input_file_path;
                            base_file_path = fst (splitext base_file_path);
                            output = (case output of None \<Rightarrow> base_file_path @ ''.pdf''
                                      | Some out \<Rightarrow> out)
                        in (Some output,
                            tr' @ [Savefig output] @ (if \<not> quiet then [Show] else []),
                            None))))))"

fun files_loop ::
  "env \<Rightarrow> bool \<Rightarrow> string list \<Rightarrow> string option \<Rightarrow> event list \<Rightarrow> string option \<times> event list \<times> error option" where
  "files_loop env quiet [] output tr = (output, tr, None)"
| "files_loop env quiet (input_file_path # rest) output tr =
     (case process_file env quiet input_file_path output tr of
        (output', tr', Some e) \<Rightarrow> (output', tr', Some e)
      | (output', tr', None) \<Rightarrow> files_loop env quiet rest output' tr')"

text \<open>
  The loop over the arguments. For a directory the script evaluates
  \<open>common.get_fits_files_list(input_directory_path)\<close>; no assignment in \<open>main\<close> and none
  at module level binds the name \<open>input_directory_path\<close> (the loop variable is
  \<open>input_file_or_dir_path\<close>), so evaluating the argument raises \<open>NameError\<close>.
\<close>

fun args_loop ::
  "env \<Rightarrow> bool \<Rightarrow> string list \<Rightarrow> string option \<Rightarrow> event list \<Rightarrow> string option \<times> event list \<times> error option" where
  "args_loop env quiet [] output tr = (output, tr, None)"
| "args_loop env quiet (input_file_or_dir_path # rest) output tr =
     (if isdir env input_file_or_dir_path
      then (output, tr, Some (NameError ''input_directory_path''))
      else (case files_loop env quiet [input_file_or_dir_path] output tr of
              (output', tr', Some e) \<Rightarrow> (output', tr', Some e)
            | (output', tr', None) \<Rightarrow> args_loop env quiet rest output' tr'))"

text \<open>
  The parsed command line: \<open>--quiet\<close>, \<open>--output\<close> (\<open>None\<close> when not given) and the
  positional arguments, of which the parser requires at least one. The field \<open>output\<close>
  of the source is \<open>output_arg\<close> here.
\<close>

record args =
  quiet :: bool
  output_arg :: "string option"
  fileargs :: "string list"

definition main :: "env \<Rightarrow> args \<Rightarrow> event list \<times> error option" where
  "main env a = snd (args_loop env (quiet a) (fileargs a) (output_arg a) [])"

text \<open>The paths the figures were saved to, in order.\<close>

fun savefig_paths :: "event list \<Rightarrow> string list" where
  "savefig_paths [] = []"
| "savefig_paths (Savefig p # tr) = p # savefig_paths tr"
| "savefig_paths (_ # tr) = savefig_paths tr"

section \<open>The plots container of the benchmark window\<close>

text \<open>
  The fields of \<open>BenchmarkPlotsContainer\<close> that \<open>update_plots\<close> reads;
  \<open>wavelets_options_text\<close> is the text of the options entry.
\<close>

record container =
  input_directory_path :: string
  current_file_path :: "string option"
  kill_isolated_pixels :: bool
  color_map :: string
  show_color_bar :: bool
  wavelets_options_text :: string

definition init :: "string \<Rightarrow> container" where
  "init dir = \<lparr> input_directory_path = dir, current_file_path = None,
                kill_isolated_pixels = False, color_map = ''gnuplot2'',
                show_color_bar = True, wavelets_options_text = ''-K -k -C1 -m3 -s3 -n4'' \<rparr>"

definition clear_figure :: proc where
  "clear_figure tr = (tr @ [Clf, Canvas_draw], None)"

text \<open>
  \<open>_draw_image(self, axis, image_array, title)\<close>: as \<open>plot_image\<close>, it raises on an
  array of fewer than two dimensions, on one without elements and, in \<open>axis.pcolor\<close>, on
  one of more than two dimensions. The scale is linear.
\<close>

definition draw_image :: "container \<Rightarrow> string \<Rightarrow> ndarray \<Rightarrow> string \<Rightarrow> proc" where
  "draw_image self axis image_array title tr =
     (if length (shape image_array) < 2 then (tr, Some (IndexError ''tuple index out of range''))
      else if data image_array = [] then (tr, Some (ValueError ''zero-size array''))
      else if 2 < length (shape image_array)
      then (tr, Some (ValueError ''pcolor: the array is not two-dimensional''))
      else (tr @ [Pcolor axis image_array (color_map self) False]
               @ (if show_color_bar self then [Colorbar axis] else [])
               @ [Set_title axis title], None))"

text \<open>\<open>str(assess_mod.AssessError)\<close>: the text of the class, not of the exception raised.\<close>

definition assess_error_str :: string where
  "assess_error_str =
     ''<class '' @ [CHR 0x27] @ ''datapipe.benchmark.assess.AssessError'' @ [CHR 0x27] @ ''>''"

text \<open>
  One \<open>try\<close> block around an assessment: the scores are printed, or, when the
  assessment raised \<open>AssessError\<close>, the text above is; any other exception goes on.
\<close>

definition try_assess :: "env \<Rightarrow> string \<Rightarrow> string \<Rightarrow> ndarray \<Rightarrow> ndarray \<Rightarrow> ndarray \<Rightarrow> proc" where
  "try_assess env ok_label err_label input_img cleaned_img reference_img tr =
     (case assess_image_cleaning env input_img cleaned_img reference_img of
        Inr (score_tuple, score_name_tuple) \<Rightarrow>
          (tr @ [Print [Str ok_label, Nums score_tuple, Strs score_name_tuple]], None)
      | Inl AssessError \<Rightarrow> (tr @ [Print [Str err_label, Str assess_error_str]], None)
      | Inl e \<Rightarrow> (tr, Some e))"

text \<open>The last part of \<open>update_plots\<close>, under the comment "Update the widget".\<close>

definition update_the_widget ::
  "container \<Rightarrow> ndarray \<Rightarrow> ndarray \<Rightarrow> ndarray \<Rightarrow> ndarray \<Rightarrow> proc" where
  "update_the_widget self input_img reference_img tailcut_cleaned_img wavelets_cleaned_img tr =
     then_do (then_do (then_do (then_do (then_do
       (then_do (clear_figure tr)
          (\<lambda>tr. (tr @ [Add_subplot 221, Add_subplot 222, Add_subplot 223, Add_subplot 224], None)))
       (draw_image self ''ax1'' input_img ''Input''))
       (draw_image self ''ax2'' reference_img ''Reference''))
       (draw_image self ''ax3'' tailcut_cleaned_img ''Tailcut''))
       (draw_image self ''ax4'' wavelets_cleaned_img ''Wavelets''))
       (\<lambda>tr. (tr @ [Canvas_draw], None))"

text \<open>
  \<open>update_plots(self, data=None)\<close>. The copies made with \<open>astype\<close> are the array itself,
  its numbers being double-precision already in this model.
\<close>

definition update_plots :: "env \<Rightarrow> container \<Rightarrow> proc" where
  "update_plots env self tr =
     (case current_file_path self of
        None \<Rightarrow> (tr, None)
      | Some path \<Rightarrow>
         (case load_benchmark_images env path of
            Inl e \<Rightarrow> (tr @ [Load path], Some e)
          | Inr fits_images_dict \<Rightarrow>
             (case fits_images_dict ''input_image'' of
                None \<Rightarrow> (tr @ [Load path], Some (KeyError ''input_image''))
              | Some input_img \<Rightarrow>
                 (case fits_images_dict ''reference_image'' of
                    None \<Rightarrow> (tr @ [Load path], Some (KeyError ''reference_image''))
                  | Some reference_img \<Rightarrow>
                     if ndim input_img \<noteq> 2
                     then (tr @ [Load path], Some (Exception not_2d_message))
                     else if ndim reference_img \<noteq> 2
                     then (tr @ [Load path], Some (Exception not_2d_message))
                     else
                       (case tailcut_clean_image env input_img of
                          Inl e \<Rightarrow> (tr @ [Load path], Some e)
                        | Inr tailcut_cleaned_img \<Rightarrow>
                           (let option_string = wavelets_options_text self
                            in case wavelets_clean_image env input_img (kill_isolated_pixels self)
                                      option_string of
                                 Inl e \<Rightarrow> (tr @ [Load path, Print [Str option_string]], Some e)
                               | Inr wavelets_cleaned_img \<Rightarrow>
                                  then_do (then_do (then_do
                                    (tr @ [Load path, Print [Str option_string],
                                           Print [Str ''Tailcut execution time: '', Elapsed],
                                           Print [Str ''Wavelets execution time: '', Elapsed]], None)
                                    (try_assess env ''TC:'' ''TC: '' input_img tailcut_cleaned_img
                                       reference_img))
                                    (try_assess env ''WT:'' ''WT: '' input_img wavelets_cleaned_img
                                       reference_img))
                                    (update_the_widget self input_img reference_img
                                       tailcut_cleaned_img wavelets_cleaned_img)))))))"

text \<open>The histograms drawn, in order: label, counts and bin edges of each.\<close>

fun hists :: "event list \<Rightarrow> (string \<times> nat list \<times> real list) list" where
  "hists [] = []"
| "hists (Hist axis k values bins # tr) = (k, values, bins) # hists tr"
| "hists (_ # tr) = hists tr"

section \<open>An example environment\<close>

text \<open>
  A 40 by 40 image of ones, a descriptor with centroid at the origin, and an
  environment in which \<open>data\<close> is the only directory, every file holds that image twice,
  both fits return that descriptor, the cleaning algorithms return their input and the
  assessment raises \<open>AssessError\<close>.
\<close>

definition img0 :: ndarray where
  "img0 = \<lparr> shape = [40, 40], data = replicate 1600 (Some 1) \<rparr>"

text \<open>The same numbers as a one-dimensional array.\<close>

definition img1 :: ndarray where
  "img1 = \<lparr> shape = [1600], data = replicate 1600 (Some 1) \<rparr>"

definition h0 :: hillas where
  "h0 = \<lparr> cen_x = Some 0, cen_y = Some 0, length_h = Some 1, width = Some (1 / 2), psi = Some 0 \<rparr>"

definition env0 :: env where
  "env0 = \<lparr> isdir = (\<lambda>p. p = ''data''),
             load_benchmark_images =
               (\<lambda>p. Inr [''input_image'' \<mapsto> img0, ''reference_image'' \<mapsto> img0]),
             hillas_parameters_1 = (\<lambda>x y w. Inr h0),
             hillas_parameters_2 = (\<lambda>x y w. Inr h0),
             format_2f = (\<lambda>a. ''0.00''),
             tailcut_clean_image = (\<lambda>a. Inr a),
             wavelets_clean_image = (\<lambda>a k s. Inr a),
             assess_image_cleaning = (\<lambda>a c r. Inl AssessError) \<rparr>"

section \<open>Bins and counts\<close>

lemma half_open_bins:
  fixes e :: "real list"
  assumes mono: "\<And>i j. i \<le> j \<Longrightarrow> j < length e \<Longrightarrow> e ! i \<le> e ! j"
  shows "k < length e \<Longrightarrow>
     sum_list (map (\<lambda>i. if e ! i \<le> v \<and> v < e ! (i + 1) then 1 else 0) [0..<k])
       = (if e ! 0 \<le> v \<and> v < e ! k then (1::nat) else 0)"
proof (induction k)
  case 0
  show ?case by auto
next
  case (Suc k)
  have a: "e ! 0 \<le> e ! k" using mono [of 0 k] Suc.prems by simp
  have b: "e ! k \<le> e ! Suc k" using mono [of k "Suc k"] Suc.prems by simp
  from Suc have ih: "sum_list (map (\<lambda>i. if e ! i \<le> v \<and> v < e ! (i + 1) then 1 else 0) [0..<k])
       = (if e ! 0 \<le> v \<and> v < e ! k then (1::nat) else 0)" by simp
  have "sum_list (map (\<lambda>i. if e ! i \<le> v \<and> v < e ! (i + 1) then 1 else 0) [0..<Suc k])
      = sum_list (map (\<lambda>i. if e ! i \<le> v \<and> v < e ! (i + 1) then 1 else 0) [0..<k])
        + (if e ! k \<le> v \<and> v < e ! (k + 1) then (1::nat) else 0)"
    by simp
  also have "\<dots> = (if e ! 0 \<le> v \<and> v < e ! k then (1::nat) else 0)
        + (if e ! k \<le> v \<and> v < e ! (k + 1) then (1::nat) else 0)"
    by (simp only: ih)
  also have "\<dots> = (if e ! 0 \<le> v \<and> v < e ! Suc k then (1::nat) else 0)"
    using a b by auto
  finally show ?case .
qed

lemma in_bin_inner:
  "i + 2 < length e \<Longrightarrow> in_bin e i (Some v) = (e ! i \<le> v \<and> v < e ! (i + 1))"
  by (simp add: in_bin_def)

lemma in_bin_last:
  "i + 2 = length e \<Longrightarrow> in_bin e i (Some v) = (e ! i \<le> v \<and> v \<le> e ! (i + 1))"
  by (auto simp add: in_bin_def)

lemma bins_partition:
  assumes mono: "\<And>i j. i \<le> j \<Longrightarrow> j < length e \<Longrightarrow> e ! i \<le> e ! j"
      and len: "length e = Suc (Suc m)"
  shows "sum_list (map (\<lambda>i. if in_bin e i (Some v) then 1 else 0) [0..<Suc m])
       = (if e ! 0 \<le> v \<and> v \<le> e ! Suc m then (1::nat) else 0)"
proof -
  have inner: "map (\<lambda>i. if in_bin e i (Some v) then 1 else 0) [0..<m]
             = map (\<lambda>i. if e ! i \<le> v \<and> v < e ! (i + 1) then (1::nat) else 0) [0..<m]"
    by (rule map_cong) (simp_all add: in_bin_inner len)
  have s: "sum_list (map (\<lambda>i. if e ! i \<le> v \<and> v < e ! (i + 1) then 1 else 0) [0..<m])
       = (if e ! 0 \<le> v \<and> v < e ! m then (1::nat) else 0)"
    using half_open_bins [OF mono, of m v] len by simp
  have l: "in_bin e m (Some v) = (e ! m \<le> v \<and> v \<le> e ! Suc m)"
    using in_bin_last [of m e v] len by simp
  have a: "e ! 0 \<le> e ! m" using mono [of 0 m] len by simp
  have b: "e ! m \<le> e ! Suc m" using mono [of m "Suc m"] len by simp
  have "sum_list (map (\<lambda>i. if in_bin e i (Some v) then 1 else 0) [0..<Suc m])
      = sum_list (map (\<lambda>i. if in_bin e i (Some v) then 1 else 0) [0..<m])
        + (if in_bin e m (Some v) then (1::nat) else 0)"
    by simp
  also have "\<dots> = (if e ! 0 \<le> v \<and> v < e ! m then (1::nat) else 0)
        + (if e ! m \<le> v \<and> v \<le> e ! Suc m then (1::nat) else 0)"
    by (simp only: inner s l)
  also have "\<dots> = (if e ! 0 \<le> v \<and> v \<le> e ! Suc m then (1::nat) else 0)"
    using a b by auto
  finally show ?thesis .
qed

lemma in_bin_None: "in_bin e i None = False"
  by (simp add: in_bin_def)

lemma histogram_total:
  assumes mono: "\<And>i j. i \<le> j \<Longrightarrow> j < length e \<Longrightarrow> e ! i \<le> e ! j"
      and len: "length e = Suc (Suc m)"
  shows "sum_list (histogram a e)
       = length (filter (\<lambda>d. case d of None \<Rightarrow> False | Some v \<Rightarrow> e ! 0 \<le> v \<and> v \<le> e ! Suc m) a)"
proof (induction a)
  case Nil
  show ?case by (simp add: histogram_def)
next
  case (Cons d a)
  have split: "sum_list (histogram (d # a) e)
      = sum_list (map (\<lambda>i. if in_bin e i d then 1 else 0) [0..<Suc m]) + sum_list (histogram a e)"
  proof -
    have pt: "\<And>i. length (filter (in_bin e i) (d # a))
        = (if in_bin e i d then 1 else 0) + length (filter (in_bin e i) a)"
      by simp
    show ?thesis
      unfolding histogram_def len
      by (simp only: pt sum_list_addf diff_Suc_1)
  qed
  show ?case
  proof (cases d)
    case None
    then show ?thesis using Cons split by (simp add: in_bin_None del: upt_Suc)
  next
    case (Some v)
    then show ?thesis using Cons split bins_partition [OF mono len, of v] by (simp del: upt_Suc)
  qed
qed

lemma linspace_nth: "i < n \<Longrightarrow> linspace a b n ! i = a + real i * ((b - a) / real (n - 1))"
  by (simp add: linspace_def)

lemma linspace_length: "length (linspace a b n) = n"
  by (simp add: linspace_def)

lemma linspace_mono:
  assumes "a \<le> b" "i \<le> j" "j < length (linspace a b n)"
  shows "linspace a b n ! i \<le> linspace a b n ! j"
proof -
  have "real i * ((b - a) / real (n - 1)) \<le> real j * ((b - a) / real (n - 1))"
    using assms by (intro mult_right_mono) simp_all
  then show ?thesis using assms by (simp add: linspace_nth linspace_length)
qed

lemma bins_length: "length (linspace (- 0.2) 0.2 31) = 31"
  by (simp add: linspace_length)

lemma bins_first: "linspace (- 0.2) 0.2 31 ! 0 = - 0.2"
  by (simp add: linspace_nth)

lemma bins_last: "linspace (- 0.2) 0.2 31 ! 30 = 0.2"
  by (simp add: linspace_nth)

lemma bins_width: "i < 30 \<Longrightarrow> linspace (- 0.2) 0.2 31 ! Suc i - linspace (- 0.2) 0.2 31 ! i = 0.4 / 30"
  by (simp add: linspace_nth algebra_simps)

lemma histogram_length: "length (histogram a e) = length e - 1"
  by (simp add: histogram_def)

lemma bins_total:
  "sum_list (histogram a (linspace (- 0.2) 0.2 31))
     = length (filter (\<lambda>d. case d of None \<Rightarrow> False | Some v \<Rightarrow> - 0.2 \<le> v \<and> v \<le> 0.2) a)"
proof -
  have len: "length (linspace (- 0.2) 0.2 31) = Suc (Suc 29)"
    by (simp add: linspace_length)
  have mono: "\<And>i j. i \<le> j \<Longrightarrow> j < length (linspace (- 0.2) 0.2 31) \<Longrightarrow>
      linspace (- 0.2) 0.2 31 ! i \<le> linspace (- 0.2) 0.2 (31::nat) ! j"
    by (rule linspace_mono) simp_all
  have l30: "linspace (- 0.2) 0.2 31 ! Suc 29 = 0.2"
    using bins_last by simp
  show ?thesis
    using histogram_total [OF mono len, of a] by (simp only: bins_first l30)
qed

section \<open>What the distribution procedure draws\<close>

lemma hists_append: "hists (a @ b) = hists a @ hists b"
  by (induction a rule: hists.induct) simp_all

lemma loop_body_Hist:
  "loop_body axis k h xx yy s =
     Hist axis k (histogram (dp_of (D_of h (flatten xx) (flatten yy)) (T_of h)) (linspace (- s) s 31))
       (linspace (- s) s 31)"
  by (simp add: loop_body_def Let_def)

lemma plot_perp_ok:
  assumes "fit (flatten (fst (meshgrid grid_x grid_y))) (flatten (snd (meshgrid grid_x grid_y)))
             (data image_array) = Inr h"
  shows "plot_perpendicular_hit_distribution fit axis image_array title tr =
     (tr @ [loop_body axis ''ref.'' h (fst (meshgrid grid_x grid_y)) (snd (meshgrid grid_x grid_y)) 0.2,
            loop_body axis ''cleaned'' h (fst (meshgrid grid_x grid_y)) (snd (meshgrid grid_x grid_y)) 0.2,
            Set_xlim axis (- 0.2) 0.2,
            Set_xlabel axis ''Distance to the shower axis (m)'',
            Set_ylabel axis ''Hits'',
            Legend axis,
            Set_title axis title], None)"
  using assms by (simp add: plot_perpendicular_hit_distribution_def Let_def)

lemma plot_perp_returns:
  assumes "plot_perpendicular_hit_distribution fit axis image_array title tr = (tr', None)"
  shows "\<exists>h. fit (flatten (fst (meshgrid grid_x grid_y))) (flatten (snd (meshgrid grid_x grid_y)))
             (data image_array) = Inr h"
  using assms by (simp add: plot_perpendicular_hit_distribution_def Let_def split: sum.splits)

text \<open>
  C1. Whenever the procedure returns, each of the two histograms it draws has 31 bin
  edges, from -0.2 to 0.2 in equal steps, hence 30 bins of equal width, and its counts
  add up to the number of grid pixels whose transverse distance is a number between
  -0.2 and 0.2, ends included: a pixel outside that range is counted in no bin.
\<close>

theorem hit_histogram_bins_and_total:
  assumes "plot_perpendicular_hit_distribution fit axis image_array title tr = (tr', None)"
  shows "\<exists>h. fit (flatten (fst (meshgrid grid_x grid_y))) (flatten (snd (meshgrid grid_x grid_y)))
               (data image_array) = Inr h \<and>
           (\<exists>values bins.
              hists tr' = hists tr @ [(''ref.'', values, bins), (''cleaned'', values, bins)] \<and>
              length bins = 31 \<and> bins ! 0 = - 0.2 \<and> bins ! 30 = 0.2 \<and>
              (\<forall>i<30. bins ! Suc i - bins ! i = 0.4 / 30) \<and>
              length values = 30 \<and>
              sum_list values =
                length (filter (\<lambda>d. case d of None \<Rightarrow> False | Some v \<Rightarrow> - 0.2 \<le> v \<and> v \<le> 0.2)
                  (dp_of (D_of h (flatten (fst (meshgrid grid_x grid_y)))
                                 (flatten (snd (meshgrid grid_x grid_y)))) (T_of h))))"
proof -
  obtain h where h: "fit (flatten (fst (meshgrid grid_x grid_y)))
      (flatten (snd (meshgrid grid_x grid_y))) (data image_array) = Inr h"
    using plot_perp_returns [OF assms] by blast
  have tr': "tr' = tr @ [loop_body axis ''ref.'' h (fst (meshgrid grid_x grid_y)) (snd (meshgrid grid_x grid_y)) 0.2,
            loop_body axis ''cleaned'' h (fst (meshgrid grid_x grid_y)) (snd (meshgrid grid_x grid_y)) 0.2,
            Set_xlim axis (- 0.2) 0.2,
            Set_xlabel axis ''Distance to the shower axis (m)'',
            Set_ylabel axis ''Hits'',
            Legend axis,
            Set_title axis title]"
    using plot_perp_ok [where fit = fit and image_array = image_array and h = h
        and axis = axis and title = title and tr = tr] h assms by simp
  define X where "X = flatten (fst (meshgrid grid_x grid_y))"
  define Y where "Y = flatten (snd (meshgrid grid_x grid_y))"
  define B where "B = linspace (- 0.2) 0.2 31"
  define V where "V = histogram (dp_of (D_of h X Y) (T_of h)) B"
  have hs: "hists tr' = hists tr @ [(''ref.'', V, B), (''cleaned'', V, B)]"
    unfolding tr' hists_append loop_body_Hist V_def B_def X_def Y_def by simp
  have b1: "length B = 31"
    unfolding B_def by (rule bins_length)
  have b2: "B ! 0 = - 0.2"
    unfolding B_def by (rule bins_first)
  have b3: "B ! 30 = 0.2"
    unfolding B_def by (rule bins_last)
  have b4: "\<forall>i<30. B ! Suc i - B ! i = 0.4 / 30"
    unfolding B_def using bins_width by blast
  have v1: "length V = 30"
    unfolding V_def by (simp add: histogram_length b1)
  have v2: "sum_list V =
      length (filter (\<lambda>d. case d of None \<Rightarrow> False | Some v \<Rightarrow> - 0.2 \<le> v \<and> v \<le> 0.2)
        (dp_of (D_of h X Y) (T_of h)))"
    unfolding V_def B_def by (rule bins_total)
  show ?thesis
    using h hs b1 b2 b3 b4 v1 v2 unfolding X_def Y_def by blast
qed

theorem hit_histogram_bins_and_total_witness:
  "snd (plot_perpendicular_hit_distribution (hillas_parameters_1 env0) ''ax2'' img0 ''t'' []) = None \<and>
   (\<exists>values bins.
      hists (fst (plot_perpendicular_hit_distribution (hillas_parameters_1 env0) ''ax2'' img0 ''t'' []))
        = [(''ref.'', values, bins), (''cleaned'', values, bins)] \<and>
      length bins = 31 \<and> length values = 30 \<and>
      sum_list values =
        length (filter (\<lambda>d. case d of None \<Rightarrow> False | Some v \<Rightarrow> - 0.2 \<le> v \<and> v \<le> 0.2)
          (dp_of (D_of h0 (flatten (fst (meshgrid grid_x grid_y)))
                          (flatten (snd (meshgrid grid_x grid_y)))) (T_of h0))))"
proof -
  obtain tr' where r:
    "plot_perpendicular_hit_distribution (hillas_parameters_1 env0) ''ax2'' img0 ''t'' [] = (tr', None)"
    by (simp add: plot_perpendicular_hit_distribution_def env0_def Let_def)
  obtain h vs bs where
    h: "hillas_parameters_1 env0 (flatten (fst (meshgrid grid_x grid_y)))
          (flatten (snd (meshgrid grid_x grid_y))) (data img0) = Inr h" and
    hs: "hists tr' = hists [] @ [(''ref.'', vs, bs), (''cleaned'', vs, bs)]" and
    b: "length bs = 31" and v: "length vs = 30" and
    t: "sum_list vs =
        length (filter (\<lambda>d. case d of None \<Rightarrow> False | Some v \<Rightarrow> - 0.2 \<le> v \<and> v \<le> 0.2)
          (dp_of (D_of h (flatten (fst (meshgrid grid_x grid_y)))
                          (flatten (snd (meshgrid grid_x grid_y)))) (T_of h)))"
    using hit_histogram_bins_and_total [OF r] by blast
  have "h = h0" using h by (simp add: env0_def)
  with hs b v t show ?thesis unfolding r by auto
qed

text \<open>
  C5. The procedure takes one image. Whenever it returns, the histogram labelled
  \<open>ref.\<close> and the one labelled \<open>cleaned\<close> have the same counts and the same bin
  edges, and they are the only histograms it draws.
\<close>

theorem ref_and_cleaned_identical:
  assumes "plot_perpendicular_hit_distribution fit axis image_array title tr = (tr', None)"
  shows "\<exists>values bins. hists tr' = hists tr @ [(''ref.'', values, bins), (''cleaned'', values, bins)]"
proof -
  obtain h where h: "fit (flatten (fst (meshgrid grid_x grid_y)))
      (flatten (snd (meshgrid grid_x grid_y))) (data image_array) = Inr h"
    using plot_perp_returns [OF assms] by blast
  have "tr' = tr @ [loop_body axis ''ref.'' h (fst (meshgrid grid_x grid_y)) (snd (meshgrid grid_x grid_y)) 0.2,
            loop_body axis ''cleaned'' h (fst (meshgrid grid_x grid_y)) (snd (meshgrid grid_x grid_y)) 0.2,
            Set_xlim axis (- 0.2) 0.2,
            Set_xlabel axis ''Distance to the shower axis (m)'',
            Set_ylabel axis ''Hits'',
            Legend axis,
            Set_title axis title]"
    using plot_perp_ok [where fit = fit and image_array = image_array and h = h
        and axis = axis and title = title and tr = tr] h assms by simp
  then have "hists tr' = hists tr @
      [(''ref.'', histogram (dp_of (D_of h (flatten (fst (meshgrid grid_x grid_y)))
          (flatten (snd (meshgrid grid_x grid_y)))) (T_of h)) (linspace (- 0.2) 0.2 31),
        linspace (- 0.2) 0.2 31),
       (''cleaned'', histogram (dp_of (D_of h (flatten (fst (meshgrid grid_x grid_y)))
          (flatten (snd (meshgrid grid_x grid_y)))) (T_of h)) (linspace (- 0.2) 0.2 31),
        linspace (- 0.2) 0.2 31)]"
    by (simp add: hists_append loop_body_Hist)
  then show ?thesis by blast
qed

theorem ref_and_cleaned_identical_witness:
  "snd (plot_perpendicular_hit_distribution (hillas_parameters_1 env0) ''ax2'' img0 ''t'' []) = None \<and>
   (\<exists>values bins.
      hists (fst (plot_perpendicular_hit_distribution (hillas_parameters_1 env0) ''ax2'' img0 ''t'' []))
        = [(''ref.'', values, bins), (''cleaned'', values, bins)])"
proof -
  obtain tr' where r:
    "plot_perpendicular_hit_distribution (hillas_parameters_1 env0) ''ax2'' img0 ''t'' [] = (tr', None)"
    by (simp add: plot_perpendicular_hit_distribution_def env0_def Let_def)
  obtain vs bs where
    "hists tr' = hists [] @ [(''ref.'', vs, bs), (''cleaned'', vs, bs)]"
    using ref_and_cleaned_identical [OF r] by blast
  then show ?thesis unfolding r by auto
qed

section \<open>The axis endpoint\<close>

text \<open>
  C3. The endpoint is the centroid plus the fitted length times the cosine and the sine
  of \<open>psi + pi / 2\<close>, in the script's arithmetic and, for a descriptor of numbers, as
  real numbers. The shift by a quarter turn matters: the offset is
  \<open>(- sin psi, cos psi)\<close> times the length, not \<open>(cos psi, sin psi)\<close> times it.
\<close>

theorem axis_endpoint_formula:
  "p2_x h = fadd (cen_x h) (fmul (length_h h) (fcos (fadd (psi h) (Some (pi / 2))))) \<and>
   p2_y h = fadd (cen_y h) (fmul (length_h h) (fsin (fadd (psi h) (Some (pi / 2))))) \<and>
   p2_x \<lparr> cen_x = Some cx, cen_y = Some cy, length_h = Some l, width = w, psi = Some a \<rparr>
     = Some (cx + l * cos (a + pi / 2)) \<and>
   p2_y \<lparr> cen_x = Some cx, cen_y = Some cy, length_h = Some l, width = w, psi = Some a \<rparr>
     = Some (cy + l * sin (a + pi / 2)) \<and>
   cx + l * cos (a + pi / 2) = cx - l * sin a \<and>
   cy + l * sin (a + pi / 2) = cy + l * cos a"
  by (simp add: p2_x_def p2_y_def p1_x_def p1_y_def fadd_def fmul_def fcos_def fsin_def
      cos_add sin_add)

section \<open>No file selected\<close>

text \<open>
  C10. When the current file path is \<open>None\<close>, \<open>update_plots\<close> returns without an
  exception and without any effect: no file is loaded, nothing is printed and the
  figure is not touched.
\<close>

theorem no_file_selected_does_nothing:
  "current_file_path self = None \<Longrightarrow> update_plots env self tr = (tr, None)"
  by (simp add: update_plots_def)

theorem no_file_selected_does_nothing_witness:
  "current_file_path (init ''data'') = None \<and> update_plots env0 (init ''data'') [] = ([], None)"
  using no_file_selected_does_nothing [of "init ''data''" env0 "[]"] by (simp add: init_def)

section \<open>The basis vector\<close>

lemma h0_points:
  "p1_x h0 = Some 0" "p1_y h0 = Some 0" "p2_x h0 = Some 0" "p2_y h0 = Some 1"
  by (simp_all add: p1_x_def p1_y_def p2_x_def p2_y_def h0_def fadd_def fmul_def fcos_def fsin_def)

lemma normalise_numbers:
  assumes "(u, v) \<noteq> (0, 0)"
  shows "normalise (Some u, Some v) = (Some (u / sqrt (u * u + v * v)), Some (v / sqrt (u * u + v * v)))"
proof -
  have "u * u + v * v \<noteq> 0"
    using assms by auto
  moreover have "0 \<le> u * u + v * v" by simp
  ultimately show ?thesis
    by (simp add: normalise_def length_vec_def fsqrt_def fadd_def fmul_def fdiv_def not_less)
qed

text \<open>
  C2. The script normalises \<open>p1 - p2\<close>. For a descriptor whose centroid and endpoint
  are numbers and differ, \<open>T\<close> is the difference \<open>p1 - p2\<close> divided by its length: a
  unit vector that points from the endpoint \<open>p2\<close> to the centroid \<open>p1\<close>, the opposite
  of the normalised \<open>p2 - p1\<close>.
\<close>

theorem T_points_from_p2_to_p1:
  assumes "p1_x h = Some a" "p1_y h = Some b" "p2_x h = Some c" "p2_y h = Some d"
      and "(a, b) \<noteq> (c, d)"
  shows "T_of h = normalise (Some (a - c), Some (b - d)) \<and>
         T_of h = (Some ((a - c) / sqrt ((a - c) * (a - c) + (b - d) * (b - d))),
                   Some ((b - d) / sqrt ((a - c) * (a - c) + (b - d) * (b - d)))) \<and>
         ((a - c) / sqrt ((a - c) * (a - c) + (b - d) * (b - d))) *
         ((a - c) / sqrt ((a - c) * (a - c) + (b - d) * (b - d))) +
         ((b - d) / sqrt ((a - c) * (a - c) + (b - d) * (b - d))) *
         ((b - d) / sqrt ((a - c) * (a - c) + (b - d) * (b - d))) = 1 \<and>
         normalise (fsub (p2_x h) (p1_x h), fsub (p2_y h) (p1_y h)) =
           (Some (- ((a - c) / sqrt ((a - c) * (a - c) + (b - d) * (b - d)))),
            Some (- ((b - d) / sqrt ((a - c) * (a - c) + (b - d) * (b - d)))))"
proof -
  define u where "u = a - c"
  define v where "v = b - d"
  have ne: "(u, v) \<noteq> (0, 0)" using assms(5) by (auto simp: u_def v_def)
  have ne': "(- u, - v) \<noteq> (0, 0)" using ne by auto
  have s: "u * u + v * v \<noteq> 0" using ne by auto
  have nn: "0 \<le> u * u + v * v" by simp
  have t0: "T_of h = normalise (Some u, Some v)"
    by (simp add: T_of_def assms fsub_def u_def v_def)
  have t: "T_of h = (Some (u / sqrt (u * u + v * v)), Some (v / sqrt (u * u + v * v)))"
    unfolding t0 by (rule normalise_numbers [OF ne])
  have r: "sqrt (u * u + v * v) * sqrt (u * u + v * v) = u * u + v * v"
    using nn by simp
  have unit: "(u / sqrt (u * u + v * v)) * (u / sqrt (u * u + v * v)) +
              (v / sqrt (u * u + v * v)) * (v / sqrt (u * u + v * v)) = 1"
  proof -
    have "(u / sqrt (u * u + v * v)) * (u / sqrt (u * u + v * v)) +
              (v / sqrt (u * u + v * v)) * (v / sqrt (u * u + v * v))
        = (u * u + v * v) / (sqrt (u * u + v * v) * sqrt (u * u + v * v))"
      by (simp only: times_divide_times_eq add_divide_distrib)
    also have "\<dots> = (u * u + v * v) / (u * u + v * v)"
      by (simp only: r)
    also have "\<dots> = 1" using s by simp
    finally show ?thesis .
  qed
  have e1: "fsub (p2_x h) (p1_x h) = Some (- u)"
    by (simp add: assms fsub_def u_def)
  have e2: "fsub (p2_y h) (p1_y h) = Some (- v)"
    by (simp add: assms fsub_def v_def)
  have n: "normalise (Some (- u), Some (- v)) =
      (Some (- u / sqrt (- u * - u + - v * - v)), Some (- v / sqrt (- u * - u + - v * - v)))"
    by (rule normalise_numbers [OF ne'])
  have opp: "normalise (fsub (p2_x h) (p1_x h), fsub (p2_y h) (p1_y h)) =
           (Some (- (u / sqrt (u * u + v * v))), Some (- (v / sqrt (u * u + v * v))))"
    unfolding e1 e2 n by simp
  show ?thesis
    using t0 t unit opp unfolding u_def v_def by blast
qed

theorem T_points_from_p2_to_p1_witness:
  "p1_x h0 = Some 0 \<and> p1_y h0 = Some 0 \<and> p2_x h0 = Some 0 \<and> p2_y h0 = Some 1 \<and>
   ((0::real), (0::real)) \<noteq> (0, 1) \<and> T_of h0 = (Some 0, Some (- 1))"
proof -
  have ne: "((0::real), (0::real)) \<noteq> (0, 1)" by simp
  have "T_of h0 = (Some ((0 - 0) / sqrt ((0 - 0) * (0 - 0) + (0 - 1) * (0 - 1))),
                   Some ((0 - 1) / sqrt ((0 - 0) * (0 - 0) + (0 - 1) * (0 - 1))))"
    using T_points_from_p2_to_p1 [OF h0_points ne] by blast
  then have "T_of h0 = (Some 0, Some (- 1))" by simp
  then show ?thesis using ne by (simp add: h0_points)
qed

text \<open>
  C2, as the claim has it, fails: for the example descriptor the centroid is the
  origin and the endpoint is \<open>(0, 1)\<close>, so \<open>T\<close> is \<open>(0, -1)\<close>, and the
  normalised \<open>p2 - p1\<close> is \<open>(0, 1)\<close>.
\<close>

theorem T_direction_counterexample:
  "(p1_x h0, p1_y h0) \<noteq> (p2_x h0, p2_y h0) \<and>
   T_of h0 \<noteq> normalise (fsub (p2_x h0) (p1_x h0), fsub (p2_y h0) (p1_y h0)) \<and>
   T_of h0 = (Some 0, Some (- 1)) \<and>
   normalise (fsub (p2_x h0) (p1_x h0), fsub (p2_y h0) (p1_y h0)) = (Some 0, Some 1)"
proof -
  have a: "T_of h0 = (Some 0, Some (- 1))"
    using normalise_numbers [of 0 "- 1"] by (simp add: T_of_def h0_points fsub_def)
  have b: "normalise (fsub (p2_x h0) (p1_x h0), fsub (p2_y h0) (p1_y h0)) = (Some 0, Some 1)"
    using normalise_numbers [of 0 1] by (simp add: h0_points fsub_def)
  show ?thesis unfolding a b by (simp add: h0_points)
qed

section \<open>The quantity that is binned\<close>

lemma dp_pointwise:
  "dp_of (D_of h x y) T =
     map2 (\<lambda>xi yi. fsub (fmul (fsub (cen_x h) xi) (snd T)) (fmul (fsub (cen_y h) yi) (fst T))) x y"
  by (simp add: dp_of_def D_of_def p1_x_def p1_y_def zip_map_map split_def)

text \<open>
  C4. The displacement of a pixel is the centroid minus its position, component by
  component. Whenever the fit returns, both histograms are those of the transverse
  components \<open>D_x * T_y - D_y * T_x\<close> of the grid pixels: the longitudinal component,
  which the loop body also computes, occurs nowhere in what the procedure draws.
\<close>

theorem only_dp_is_binned:
  assumes "fit (flatten (fst (meshgrid grid_x grid_y))) (flatten (snd (meshgrid grid_x grid_y)))
             (data image_array) = Inr h"
  shows "D_of h x y = (map (\<lambda>xi. fsub (cen_x h) xi) x, map (\<lambda>yi. fsub (cen_y h) yi) y) \<and>
     plot_perpendicular_hit_distribution fit axis image_array title tr =
     (tr @ [Hist axis ''ref.''
              (histogram
                 (map2 (\<lambda>xi yi. fsub (fmul (fsub (cen_x h) xi) (snd (T_of h)))
                                     (fmul (fsub (cen_y h) yi) (fst (T_of h))))
                    (flatten (fst (meshgrid grid_x grid_y))) (flatten (snd (meshgrid grid_x grid_y))))
                 (linspace (- 0.2) 0.2 31))
              (linspace (- 0.2) 0.2 31),
            Hist axis ''cleaned''
              (histogram
                 (map2 (\<lambda>xi yi. fsub (fmul (fsub (cen_x h) xi) (snd (T_of h)))
                                     (fmul (fsub (cen_y h) yi) (fst (T_of h))))
                    (flatten (fst (meshgrid grid_x grid_y))) (flatten (snd (meshgrid grid_x grid_y))))
                 (linspace (- 0.2) 0.2 31))
              (linspace (- 0.2) 0.2 31),
            Set_xlim axis (- 0.2) 0.2,
            Set_xlabel axis ''Distance to the shower axis (m)'',
            Set_ylabel axis ''Hits'',
            Legend axis,
            Set_title axis title], None)"
proof -
  have d: "D_of h x y = (map (\<lambda>xi. fsub (cen_x h) xi) x, map (\<lambda>yi. fsub (cen_y h) yi) y)"
    by (simp add: D_of_def p1_x_def p1_y_def)
  have p: "plot_perpendicular_hit_distribution fit axis image_array title tr =
     (tr @ [loop_body axis ''ref.'' h (fst (meshgrid grid_x grid_y)) (snd (meshgrid grid_x grid_y)) 0.2,
            loop_body axis ''cleaned'' h (fst (meshgrid grid_x grid_y)) (snd (meshgrid grid_x grid_y)) 0.2,
            Set_xlim axis (- 0.2) 0.2,
            Set_xlabel axis ''Distance to the shower axis (m)'',
            Set_ylabel axis ''Hits'',
            Legend axis,
            Set_title axis title], None)"
    using plot_perp_ok [where fit = fit and image_array = image_array and h = h
        and axis = axis and title = title and tr = tr] assms by simp
  show ?thesis
    unfolding p loop_body_Hist dp_pointwise using d by simp
qed

theorem only_dp_is_binned_witness:
  "hillas_parameters_1 env0 (flatten (fst (meshgrid grid_x grid_y)))
     (flatten (snd (meshgrid grid_x grid_y))) (data img0) = Inr h0 \<and>
   hists (fst (plot_perpendicular_hit_distribution (hillas_parameters_1 env0) ''ax2'' img0 ''t'' [])) =
     [(''ref.'',
       histogram
         (map2 (\<lambda>xi yi. fsub (fmul (fsub (Some 0) xi) (Some (- 1))) (fmul (fsub (Some 0) yi) (Some 0)))
            (flatten (fst (meshgrid grid_x grid_y))) (flatten (snd (meshgrid grid_x grid_y))))
         (linspace (- 0.2) 0.2 31),
       linspace (- 0.2) 0.2 31),
      (''cleaned'',
       histogram
         (map2 (\<lambda>xi yi. fsub (fmul (fsub (Some 0) xi) (Some (- 1))) (fmul (fsub (Some 0) yi) (Some 0)))
            (flatten (fst (meshgrid grid_x grid_y))) (flatten (snd (meshgrid grid_x grid_y))))
         (linspace (- 0.2) 0.2 31),
       linspace (- 0.2) 0.2 31)]"
proof -
  have f: "hillas_parameters_1 env0 (flatten (fst (meshgrid grid_x grid_y)))
     (flatten (snd (meshgrid grid_x grid_y))) (data img0) = Inr h0"
    by (simp add: env0_def)
  have t: "T_of h0 = (Some 0, Some (- 1))"
    using normalise_numbers [of 0 "- 1"] by (simp add: T_of_def h0_points fsub_def)
  have c: "cen_x h0 = Some 0" "cen_y h0 = Some 0"
    by (simp_all add: h0_def)
  show ?thesis
    using only_dp_is_binned [where fit = "hillas_parameters_1 env0" and image_array = img0
        and h = h0 and x = "[]" and y = "[]" and axis = "''ax2''" and title = "''t''" and tr = "[]"] f
    by (simp add: t c)
qed

section \<open>Images that are not two-dimensional\<close>

lemma process_file_not_2d:
  assumes "load_benchmark_images env p = Inr d" "d ''input_image'' = Some a"
      "d ''reference_image'' = Some b" "ndim a \<noteq> 2 \<or> ndim b \<noteq> 2"
  shows "process_file env q p out tr = (out, tr @ [Load p], Some (Exception not_2d_message))"
  using assms by (auto simp add: process_file_def)

lemma args_loop_raises:
  assumes "\<And>out tr. snd (snd (process_file env q p out tr)) \<noteq> None"
  shows "p \<in> set ps \<Longrightarrow> snd (snd (args_loop env q ps out tr)) \<noteq> None"
proof (induction ps arbitrary: out tr)
  case Nil
  then show ?case by simp
next
  case (Cons x ps)
  show ?case
  proof (cases "isdir env x")
    case True
    then show ?thesis by simp
  next
    case False
    obtain o' t' r where pf: "process_file env q x out tr = (o', t', r)"
      by (cases "process_file env q x out tr") auto
    show ?thesis
    proof (cases r)
      case (Some e)
      with False pf show ?thesis by simp
    next
      case None
      with pf assms [of out tr] have "x \<noteq> p" by auto
      with Cons.prems have "p \<in> set ps" by simp
      from Cons.IH [OF this, of o' t'] False pf None show ?thesis by simp
    qed
  qed
qed

text \<open>
  C7. When the loader returns a file in which the input image or the reference image
  is not two-dimensional, processing that file raises \<open>Exception\<close> right after the
  load, before anything is plotted or saved; a batch run that has the file among its
  arguments ends with an exception, and so does \<open>update_plots\<close> when the file is the
  selected one.
\<close>

theorem not_2d_raises:
  assumes "load_benchmark_images env p = Inr d" "d ''input_image'' = Some a"
      "d ''reference_image'' = Some b" "ndim a \<noteq> 2 \<or> ndim b \<noteq> 2"
  shows "process_file env q p out tr = (out, tr @ [Load p], Some (Exception not_2d_message)) \<and>
         (p \<in> set (fileargs ar) \<longrightarrow> snd (main env ar) \<noteq> None) \<and>
         (\<not> isdir env p \<longrightarrow>
            main env \<lparr> quiet = q, output_arg = out, fileargs = p # rest \<rparr>
              = ([Load p], Some (Exception not_2d_message))) \<and>
         (current_file_path self = Some p \<longrightarrow>
            update_plots env self tr = (tr @ [Load p], Some (Exception not_2d_message)))"
proof -
  have pf: "\<And>q out tr. process_file env q p out tr
      = (out, tr @ [Load p], Some (Exception not_2d_message))"
    by (rule process_file_not_2d [OF assms])
  have 1: "p \<in> set (fileargs ar) \<longrightarrow> snd (main env ar) \<noteq> None"
  proof
    assume m: "p \<in> set (fileargs ar)"
    have "\<And>out tr. snd (snd (process_file env (quiet ar) p out tr)) \<noteq> None"
      by (simp add: pf)
    from args_loop_raises [OF this m] show "snd (main env ar) \<noteq> None"
      by (simp add: main_def)
  qed
  have 2: "\<not> isdir env p \<longrightarrow>
            main env \<lparr> quiet = q, output_arg = out, fileargs = p # rest \<rparr>
              = ([Load p], Some (Exception not_2d_message))"
    by (simp add: main_def pf)
  have 3: "current_file_path self = Some p \<longrightarrow>
            update_plots env self tr = (tr @ [Load p], Some (Exception not_2d_message))"
    using assms by (auto simp add: update_plots_def)
  show ?thesis using pf 1 2 3 by blast
qed

theorem not_2d_raises_witness:
  "load_benchmark_images
     (env0 \<lparr> load_benchmark_images :=
               (\<lambda>p. Inr [''input_image'' \<mapsto> img1, ''reference_image'' \<mapsto> img0]) \<rparr>) ''a.fits''
     = Inr [''input_image'' \<mapsto> img1, ''reference_image'' \<mapsto> img0] \<and>
   ndim img1 = 1 \<and>
   main (env0 \<lparr> load_benchmark_images :=
               (\<lambda>p. Inr [''input_image'' \<mapsto> img1, ''reference_image'' \<mapsto> img0]) \<rparr>)
     \<lparr> quiet = True, output_arg = None, fileargs = [''a.fits''] \<rparr>
     = ([Load ''a.fits''], Some (Exception not_2d_message)) \<and>
   update_plots (env0 \<lparr> load_benchmark_images :=
               (\<lambda>p. Inr [''input_image'' \<mapsto> img1, ''reference_image'' \<mapsto> img0]) \<rparr>)
     (init ''data'' \<lparr> current_file_path := Some ''a.fits'' \<rparr>) []
     = ([Load ''a.fits''], Some (Exception not_2d_message))"
proof -
  let ?d = "[''input_image'' \<mapsto> img1, ''reference_image'' \<mapsto> img0]"
  let ?env = "env0 \<lparr> load_benchmark_images := (\<lambda>p. Inr ?d) \<rparr>"
  have l: "load_benchmark_images ?env ''a.fits'' = Inr ?d" by simp
  have a: "?d ''input_image'' = Some img1" by simp
  have b: "?d ''reference_image'' = Some img0" by simp
  have n: "ndim img1 = 1" by (simp add: ndim_def img1_def)
  then have n': "ndim img1 \<noteq> 2 \<or> ndim img0 \<noteq> 2" by simp
  have nd: "\<not> isdir ?env ''a.fits''" by (simp add: env0_def)
  have s: "current_file_path (init ''data'' \<lparr> current_file_path := Some ''a.fits'' \<rparr>) = Some ''a.fits''"
    by simp
  show ?thesis
    using not_2d_raises [OF l a b n', where q = True and out = None and tr = "[]" and rest = "[]"
        and self = "init ''data'' \<lparr> current_file_path := Some ''a.fits'' \<rparr>"] l n nd s
    by simp
qed

section \<open>Directory arguments\<close>

lemma directory_argument_raises:
  "isdir env p \<Longrightarrow>
   main env \<lparr> quiet = q, output_arg = out, fileargs = p # rest \<rparr>
     = ([], Some (NameError ''input_directory_path''))"
  by (simp add: main_def)

text \<open>
  C6. The claim does not hold of the script: for an argument that is a directory the
  run ends with \<open>NameError\<close> before any file is loaded. Here at the example
  environment, whose only directory is \<open>data\<close>.
\<close>

theorem directory_argument_NameError:
  "isdir env0 ''data'' \<and>
   main env0 \<lparr> quiet = True, output_arg = None, fileargs = [''data''] \<rparr>
     = ([], Some (NameError ''input_directory_path''))"
  by (simp add: main_def env0_def)

section \<open>Where the figures are saved\<close>

lemma savefig_paths_append: "savefig_paths (a @ b) = savefig_paths a @ savefig_paths b"
  by (induction a rule: savefig_paths.induct) simp_all

lemma savefig_paths_loop_body: "savefig_paths [loop_body axis k h xx yy s] = []"
  by (simp add: loop_body_Hist)

lemma fold_fmax_ones: "(fmax (Some 1) ^^ n) (Some 1) = Some 1"
  by (induction n) (simp_all add: fmax_def)

lemma process_file_ok:
  assumes "load_benchmark_images env p = Inr d" "d ''input_image'' = Some a"
      "d ''reference_image'' = Some b" "ndim a = 2" "ndim b = 2" "data b \<noteq> []"
      "\<And>x y. hillas_parameters_2 env x y (data b) = Inr hh"
      "\<And>x y. hillas_parameters_1 env x y (data b) = Inr h"
      "amax (data b) = Some z_max" "0.01 \<le> z_max"
  shows "\<exists>evs. savefig_paths evs = [] \<and>
           process_file env q p out tr =
             (Some (case out of None \<Rightarrow> fst (splitext (basename p)) @ ''.pdf'' | Some x \<Rightarrow> x),
              tr @ evs @ [Savefig (case out of None \<Rightarrow> fst (splitext (basename p)) @ ''.pdf'' | Some x \<Rightarrow> x)]
                 @ (if \<not> q then [Show] else []),
              None)"
proof -
  have s: "\<not> length (shape b) < 2" "\<not> 2 < length (shape b)"
    using assms(5) by (simp_all add: ndim_def)
  have pp: "\<And>t. plot_perpendicular_hit_distribution (hillas_parameters_1 env) ''ax2'' b
        ''Perpendicular hit distribution'' t =
     (t @ [loop_body ''ax2'' ''ref.'' h (fst (meshgrid grid_x grid_y)) (snd (meshgrid grid_x grid_y)) 0.2,
            loop_body ''ax2'' ''cleaned'' h (fst (meshgrid grid_x grid_y)) (snd (meshgrid grid_x grid_y)) 0.2,
            Set_xlim ''ax2'' (- 0.2) 0.2,
            Set_xlabel ''ax2'' ''Distance to the shower axis (m)'',
            Set_ylabel ''ax2'' ''Hits'',
            Legend ''ax2'',
            Set_title ''ax2'' ''Perpendicular hit distribution''], None)"
    by (rule plot_perp_ok) (rule assms(8))
  show ?thesis
    using assms(1-6) assms(9,10) s
    by (simp add: process_file_def then_do_def plot_image_def plot_ellipse_shower_on_image_def
        assms(7) pp Let_def savefig_paths_append loop_body_Hist)
qed

lemma process_file_env0:
  "\<exists>evs. savefig_paths evs = [] \<and>
     process_file env0 True p out tr =
       (Some (case out of None \<Rightarrow> fst (splitext (basename p)) @ ''.pdf'' | Some x \<Rightarrow> x),
        tr @ evs @ [Savefig (case out of None \<Rightarrow> fst (splitext (basename p)) @ ''.pdf'' | Some x \<Rightarrow> x)],
        None)"
proof -
  have l: "load_benchmark_images env0 p = Inr [''input_image'' \<mapsto> img0, ''reference_image'' \<mapsto> img0]"
    by (simp add: env0_def)
  have n: "ndim img0 = 2" by (simp add: ndim_def img0_def)
  have d: "data img0 \<noteq> []" by (simp add: img0_def)
  have h2: "\<And>x y. hillas_parameters_2 env0 x y (data img0) = Inr h0" by (simp add: env0_def)
  have h1: "\<And>x y. hillas_parameters_1 env0 x y (data img0) = Inr h0" by (simp add: env0_def)
  have m: "amax (data img0) = Some 1"
    by (simp add: amax_def img0_def fold_fmax_ones)
  have m1: "0.01 \<le> (1::real)" by simp
  show ?thesis
    using process_file_ok [OF l _ _ n n d h2 h1 m m1, of True out tr] by simp
qed

lemma a_fits: "fst (splitext (basename ''a.fits'')) = ''a''"
  by (simp add: splitext_def basename_def rfind_def Let_def)

text \<open>
  C9. The claim does not hold of the script beyond the first file: the default path is
  assigned to the variable \<open>output\<close>, which is then no longer \<open>None\<close> for the files
  that follow. Here a run on \<open>a.fits\<close> and \<open>b.fits\<close> without \<open>--output\<close>, in the
  example environment: it ends without an exception and saves both figures to
  \<open>a.pdf\<close>.
\<close>

theorem second_figure_overwrites_first:
  "snd (main env0 \<lparr> quiet = True, output_arg = None, fileargs = [''a.fits'', ''b.fits''] \<rparr>) = None \<and>
   savefig_paths (fst (main env0 \<lparr> quiet = True, output_arg = None, fileargs = [''a.fits'', ''b.fits''] \<rparr>))
     = [''a.pdf'', ''a.pdf'']"
proof -
  obtain e1 where e1: "savefig_paths e1 = []"
      "process_file env0 True ''a.fits'' None [] = (Some ''a.pdf'', e1 @ [Savefig ''a.pdf''], None)"
    using process_file_env0 [of "''a.fits''" None "[]"] by (auto simp add: a_fits)
  obtain e2 where e2: "savefig_paths e2 = []"
      "process_file env0 True ''b.fits'' (Some ''a.pdf'') (e1 @ [Savefig ''a.pdf''])
         = (Some ''a.pdf'', (e1 @ [Savefig ''a.pdf'']) @ e2 @ [Savefig ''a.pdf''], None)"
    using process_file_env0 [of "''b.fits''" "Some ''a.pdf''" "e1 @ [Savefig ''a.pdf'']"] by auto
  have nd: "\<not> isdir env0 ''a.fits''" "\<not> isdir env0 ''b.fits''"
    by (simp_all add: env0_def)
  have "main env0 \<lparr> quiet = True, output_arg = None, fileargs = [''a.fits'', ''b.fits''] \<rparr>
      = ((e1 @ [Savefig ''a.pdf'']) @ e2 @ [Savefig ''a.pdf''], None)"
    by (simp add: main_def nd e1(2) e2(2))
  then show ?thesis
    by (simp add: savefig_paths_append e1(1) e2(1))
qed

section \<open>Assessment errors\<close>

lemma try_assess_caught:
  "assess_image_cleaning env a c b = Inl AssessError \<Longrightarrow>
   try_assess env ok err a c b tr = (tr @ [Print [Str err, Str assess_error_str]], None)"
  by (simp add: try_assess_def)

lemma try_assess_scores:
  "assess_image_cleaning env a c b = Inr (s, n) \<Longrightarrow>
   try_assess env ok err a c b tr = (tr @ [Print [Str ok, Nums s, Strs n]], None)"
  by (simp add: try_assess_def)

lemma try_assess_returns:
  assumes "assess_image_cleaning env a c b = Inl AssessError \<or>
           (\<exists>s n. assess_image_cleaning env a c b = Inr (s, n))"
  shows "\<exists>report. try_assess env ok err a c b tr = (tr @ [report], None) \<and>
           (assess_image_cleaning env a c b = Inl AssessError \<longrightarrow>
              report = Print [Str err, Str assess_error_str])"
  using assms by (auto simp add: try_assess_caught try_assess_scores)

lemma draw_image_ok:
  "ndim img = 2 \<Longrightarrow> data img \<noteq> [] \<Longrightarrow>
   draw_image self axis img title tr =
     (tr @ [Pcolor axis img (color_map self) False]
         @ (if show_color_bar self then [Colorbar axis] else [])
         @ [Set_title axis title], None)"
  by (simp add: draw_image_def ndim_def)

lemma draw_image_more_dimensions:
  "2 < ndim img \<Longrightarrow> data img \<noteq> [] \<Longrightarrow>
   draw_image self axis img title tr =
     (tr, Some (ValueError ''pcolor: the array is not two-dimensional''))"
  by (simp add: draw_image_def ndim_def)

lemma update_the_widget_ok:
  assumes "ndim a = 2" "data a \<noteq> []" "ndim b = 2" "data b \<noteq> []"
      "ndim tc = 2" "data tc \<noteq> []" "ndim wt = 2" "data wt \<noteq> []"
  shows "update_the_widget self a b tc wt tr =
     (tr @ [Clf, Canvas_draw, Add_subplot 221, Add_subplot 222, Add_subplot 223, Add_subplot 224]
         @ [Pcolor ''ax1'' a (color_map self) False]
         @ (if show_color_bar self then [Colorbar ''ax1''] else [])
         @ [Set_title ''ax1'' ''Input'']
         @ [Pcolor ''ax2'' b (color_map self) False]
         @ (if show_color_bar self then [Colorbar ''ax2''] else [])
         @ [Set_title ''ax2'' ''Reference'']
         @ [Pcolor ''ax3'' tc (color_map self) False]
         @ (if show_color_bar self then [Colorbar ''ax3''] else [])
         @ [Set_title ''ax3'' ''Tailcut'']
         @ [Pcolor ''ax4'' wt (color_map self) False]
         @ (if show_color_bar self then [Colorbar ''ax4''] else [])
         @ [Set_title ''ax4'' ''Wavelets'']
         @ [Canvas_draw], None)"
  using assms
  by (simp add: update_the_widget_def then_do_def clear_figure_def draw_image_ok)

text \<open>
  C8. A file is selected and loads with two-dimensional images, both cleanings return,
  and each assessment either returns or raises \<open>AssessError\<close>, at least one of them
  raising it. Then \<open>update_plots\<close> returns without an exception: each \<open>AssessError\<close>
  is reported by its own print, and after the reports the figure is cleared, the four
  images are drawn (the cleaned images being drawable as the loaded ones are: two
  dimensions and at least one element) and the canvas is redrawn.
\<close>

theorem assess_error_is_caught:
  assumes "current_file_path self = Some p"
      and "load_benchmark_images env p = Inr d"
      and "d ''input_image'' = Some a" "d ''reference_image'' = Some b"
      and "ndim a = 2" "ndim b = 2"
      and "tailcut_clean_image env a = Inr tc"
      and "wavelets_clean_image env a (kill_isolated_pixels self) (wavelets_options_text self) = Inr wt"
      and "assess_image_cleaning env a tc b = Inl AssessError \<or>
           (\<exists>s n. assess_image_cleaning env a tc b = Inr (s, n))"
      and "assess_image_cleaning env a wt b = Inl AssessError \<or>
           (\<exists>s n. assess_image_cleaning env a wt b = Inr (s, n))"
      and "assess_image_cleaning env a tc b = Inl AssessError \<or>
           assess_image_cleaning env a wt b = Inl AssessError"
      and "data a \<noteq> []" "data b \<noteq> []" "ndim tc = 2" "data tc \<noteq> []" "ndim wt = 2" "data wt \<noteq> []"
  shows "\<exists>tc_report wt_report.
     update_plots env self tr =
       (tr @ [Load p, Print [Str (wavelets_options_text self)],
              Print [Str ''Tailcut execution time: '', Elapsed],
              Print [Str ''Wavelets execution time: '', Elapsed],
              tc_report, wt_report,
              Clf, Canvas_draw, Add_subplot 221, Add_subplot 222, Add_subplot 223, Add_subplot 224]
           @ [Pcolor ''ax1'' a (color_map self) False]
           @ (if show_color_bar self then [Colorbar ''ax1''] else [])
           @ [Set_title ''ax1'' ''Input'']
           @ [Pcolor ''ax2'' b (color_map self) False]
           @ (if show_color_bar self then [Colorbar ''ax2''] else [])
           @ [Set_title ''ax2'' ''Reference'']
           @ [Pcolor ''ax3'' tc (color_map self) False]
           @ (if show_color_bar self then [Colorbar ''ax3''] else [])
           @ [Set_title ''ax3'' ''Tailcut'']
           @ [Pcolor ''ax4'' wt (color_map self) False]
           @ (if show_color_bar self then [Colorbar ''ax4''] else [])
           @ [Set_title ''ax4'' ''Wavelets'']
           @ [Canvas_draw], None) \<and>
     (assess_image_cleaning env a tc b = Inl AssessError \<longrightarrow>
        tc_report = Print [Str ''TC: '', Str assess_error_str]) \<and>
     (assess_image_cleaning env a wt b = Inl AssessError \<longrightarrow>
        wt_report = Print [Str ''WT: '', Str assess_error_str])"
proof -
  let ?t0 = "tr @ [Load p, Print [Str (wavelets_options_text self)],
              Print [Str ''Tailcut execution time: '', Elapsed],
              Print [Str ''Wavelets execution time: '', Elapsed]]"
  obtain tcr where tcr: "try_assess env ''TC:'' ''TC: '' a tc b ?t0 = (?t0 @ [tcr], None)"
      "assess_image_cleaning env a tc b = Inl AssessError \<longrightarrow>
         tcr = Print [Str ''TC: '', Str assess_error_str]"
    using try_assess_returns [OF assms(9), of "''TC:''" "''TC: ''" ?t0] by blast
  obtain wtr where wtr: "try_assess env ''WT:'' ''WT: '' a wt b (?t0 @ [tcr]) = ((?t0 @ [tcr]) @ [wtr], None)"
      "assess_image_cleaning env a wt b = Inl AssessError \<longrightarrow>
         wtr = Print [Str ''WT: '', Str assess_error_str]"
    using try_assess_returns [OF assms(10), of "''WT:''" "''WT: ''" "?t0 @ [tcr]"] by blast
  have w: "update_the_widget self a b tc wt ((?t0 @ [tcr]) @ [wtr]) =
     (((?t0 @ [tcr]) @ [wtr]) @ [Clf, Canvas_draw, Add_subplot 221, Add_subplot 222, Add_subplot 223, Add_subplot 224]
         @ [Pcolor ''ax1'' a (color_map self) False]
         @ (if show_color_bar self then [Colorbar ''ax1''] else [])
         @ [Set_title ''ax1'' ''Input'']
         @ [Pcolor ''ax2'' b (color_map self) False]
         @ (if show_color_bar self then [Colorbar ''ax2''] else [])
         @ [Set_title ''ax2'' ''Reference'']
         @ [Pcolor ''ax3'' tc (color_map self) False]
         @ (if show_color_bar self then [Colorbar ''ax3''] else [])
         @ [Set_title ''ax3'' ''Tailcut'']
         @ [Pcolor ''ax4'' wt (color_map self) False]
         @ (if show_color_bar self then [Colorbar ''ax4''] else [])
         @ [Set_title ''ax4'' ''Wavelets'']
         @ [Canvas_draw], None)"
    by (rule update_the_widget_ok [OF assms(5) assms(12) assms(6) assms(13) assms(14-17)])
  have u: "update_plots env self tr = update_the_widget self a b tc wt ((?t0 @ [tcr]) @ [wtr])"
    using assms(1-8) tcr(1) wtr(1)
    by (simp add: update_plots_def then_do_def Let_def)
  show ?thesis
    apply (rule exI [where x = tcr])
    apply (rule exI [where x = wtr])
    using tcr(2) wtr(2) unfolding u w by simp
qed

theorem assess_error_is_caught_witness:
  "assess_image_cleaning env0 img0 img0 img0 = Inl AssessError \<and>
   update_plots env0 (init ''data'' \<lparr> current_file_path := Some ''a.fits'' \<rparr>) [] =
     ([Load ''a.fits'', Print [Str ''-K -k -C1 -m3 -s3 -n4''],
       Print [Str ''Tailcut execution time: '', Elapsed],
       Print [Str ''Wavelets execution time: '', Elapsed],
       Print [Str ''TC: '', Str assess_error_str],
       Print [Str ''WT: '', Str assess_error_str],
       Clf, Canvas_draw, Add_subplot 221, Add_subplot 222, Add_subplot 223, Add_subplot 224,
       Pcolor ''ax1'' img0 ''gnuplot2'' False, Colorbar ''ax1'', Set_title ''ax1'' ''Input'',
       Pcolor ''ax2'' img0 ''gnuplot2'' False, Colorbar ''ax2'', Set_title ''ax2'' ''Reference'',
       Pcolor ''ax3'' img0 ''gnuplot2'' False, Colorbar ''ax3'', Set_title ''ax3'' ''Tailcut'',
       Pcolor ''ax4'' img0 ''gnuplot2'' False, Colorbar ''ax4'', Set_title ''ax4'' ''Wavelets'',
       Canvas_draw], None)"
proof -
  let ?self = "init ''data'' \<lparr> current_file_path := Some ''a.fits'' \<rparr>"
  let ?d = "[''input_image'' \<mapsto> img0, ''reference_image'' \<mapsto> img0]"
  have s: "current_file_path ?self = Some ''a.fits''" by simp
  have l: "load_benchmark_images env0 ''a.fits'' = Inr ?d" by (simp add: env0_def)
  have a: "?d ''input_image'' = Some img0" by simp
  have b: "?d ''reference_image'' = Some img0" by simp
  have n: "ndim img0 = 2" by (simp add: ndim_def img0_def)
  have dt: "data img0 \<noteq> []" by (simp add: img0_def)
  have tc: "tailcut_clean_image env0 img0 = Inr img0" by (simp add: env0_def)
  have wt: "wavelets_clean_image env0 img0 (kill_isolated_pixels ?self) (wavelets_options_text ?self)
      = Inr img0" by (simp add: env0_def)
  have e: "assess_image_cleaning env0 img0 img0 img0 = Inl AssessError" by (simp add: env0_def)
  have e1: "assess_image_cleaning env0 img0 img0 img0 = Inl AssessError \<or>
           (\<exists>s n. assess_image_cleaning env0 img0 img0 img0 = Inr (s, n))" using e by simp
  have e2: "assess_image_cleaning env0 img0 img0 img0 = Inl AssessError \<or>
           assess_image_cleaning env0 img0 img0 img0 = Inl AssessError" using e by simp
  obtain r1 r2 where
    "update_plots env0 ?self [] =
       ([] @ [Load ''a.fits'', Print [Str (wavelets_options_text ?self)],
              Print [Str ''Tailcut execution time: '', Elapsed],
              Print [Str ''Wavelets execution time: '', Elapsed],
              r1, r2,
              Clf, Canvas_draw, Add_subplot 221, Add_subplot 222, Add_subplot 223, Add_subplot 224]
           @ [Pcolor ''ax1'' img0 (color_map ?self) False]
           @ (if show_color_bar ?self then [Colorbar ''ax1''] else [])
           @ [Set_title ''ax1'' ''Input'']
           @ [Pcolor ''ax2'' img0 (color_map ?self) False]
           @ (if show_color_bar ?self then [Colorbar ''ax2''] else [])
           @ [Set_title ''ax2'' ''Reference'']
           @ [Pcolor ''ax3'' img0 (color_map ?self) False]
           @ (if show_color_bar ?self then [Colorbar ''ax3''] else [])
           @ [Set_title ''ax3'' ''Tailcut'']
           @ [Pcolor ''ax4'' img0 (color_map ?self) False]
           @ (if show_color_bar ?self then [Colorbar ''ax4''] else [])
           @ [Set_title ''ax4'' ''Wavelets'']
           @ [Canvas_draw], None)"
    and "r1 = Print [Str ''TC: '', Str assess_error_str]"
    and "r2 = Print [Str ''WT: '', Str assess_error_str]"
    using assess_error_is_caught [OF s l a b n n tc wt e1 e1 e2 dt dt n dt n dt, of "[]"] e
    by blast
  then show ?thesis using e by (simp add: init_def)
qed

end
